theory Spec2Isabelle
  imports Main "HOL-Library.Word"
begin

section \<open>The DAOMAFHE contract (src/unnamed/part_001)\<close>

text \<open>
  A shallow embedding of the Solidity contract \<^verbatim>\<open>DAOMAFHE\<close>. Storage is a record,
  every mapping a total function (a Solidity mapping reads as the zero value at a key never
  written), \<^verbatim>\<open>uint256\<close> and \<^verbatim>\<open>bytes32\<close> are 256-bit words, \<^verbatim>\<open>address\<close> is a
  160-bit word. A function body is a function from the storage to an \<open>exit\<close>: either
  \<open>Return\<close> with the storage it leaves, or \<open>Revert\<close> with the error and the storage as
  it stands where the \<^verbatim>\<open>revert\<close> statement is reached. \<open>transact\<close> is what a caller
  observes: a revert discards every write of the call.

  The spec names the operations and errors differently from the code:
  \<^item> submitContribution is \<^verbatim>\<open>submitData\<close>, requestDecryption is
    \<^verbatim>\<open>requestBatchResultDecryption\<close>, resolveDecryption is \<^verbatim>\<open>myCallback\<close>,
    setCooldown is \<^verbatim>\<open>setCooldownSeconds\<close>;
  \<^item> Unauthorized is \<^verbatim>\<open>NotOwner\<close> / \<^verbatim>\<open>NotProvider\<close>; SystemPaused and AlreadyPaused
    are \<^verbatim>\<open>Paused\<close>; BatchStillOpen is \<^verbatim>\<open>BatchNotClosed\<close>; BatchAlreadyOpen,
    AlreadyContributed and NoData are \<^verbatim>\<open>InvalidArgument\<close> (the code's comments say
    which); UnknownRequest has no counterpart in the code;
  \<^item> resolved is \<^verbatim>\<open>processed\<close>, commitment is \<^verbatim>\<open>stateHash\<close>, accumulator is
    \<^verbatim>\<open>encryptedDataSum\<close>, contributor-count is \<^verbatim>\<open>dataCount\<close>, contributors is
    \<^verbatim>\<open>hasSubmitted\<close>.
\<close>

subsection \<open>Types\<close>

type_synonym uint256 = "256 word"
type_synonym bytes32 = "256 word"
type_synonym address = "160 word"
type_synonym bytes = "8 word list"

text \<open>The library declares an encrypted integer as a 32-byte handle.\<close>

type_synonym euint32 = "256 word"

text \<open>
  The errors of the contract (lines 11-20). \<open>BatchNotClosed\<close> is used at line 160 and
  declared nowhere. \<open>Panic\<close> is the failure of Solidity 0.8 checked arithmetic on
  overflow; \<open>DecodeFailure\<close> is the revert of \<^verbatim>\<open>abi.decode\<close> on input shorter than
  one word.
\<close>

datatype error =
    NotOwner
  | NotProvider
  | Paused
  | CooldownActive
  | BatchNotOpen
  | BatchClosed
  | InvalidArgument
  | ReplayDetected
  | StateMismatch
  | DecryptionFailed
  | BatchNotClosed
  | Panic
  | DecodeFailure

text \<open>The events (lines 22-31); the prefix keeps them apart from the errors of the same name.\<close>

datatype event =
    E_ProviderAdded address
  | E_ProviderRemoved address
  | E_Paused address
  | E_Unpaused address
  | E_CooldownSet uint256 uint256
  | E_BatchOpened uint256
  | E_BatchClosed uint256
  | E_DataSubmitted address uint256 uint256
  | E_DecryptionRequested uint256 uint256
  | E_DecryptionCompleted uint256 uint256 uint256

record DecryptionContext =
  batchId :: uint256
  stateHash :: bytes32
  processed :: bool

text \<open>The storage of the contract (lines 39-53), and the log of emitted events.\<close>

record state =
  owner :: address
  providers :: "address \<Rightarrow> bool"
  paused :: bool
  cooldownSeconds :: uint256
  lastSubmissionTime :: "address \<Rightarrow> uint256"
  lastDecryptionRequestTime :: "address \<Rightarrow> uint256"
  currentBatchId :: uint256
  batchOpen :: bool
  encryptedDataSum :: "uint256 \<Rightarrow> euint32"
  dataCount :: "uint256 \<Rightarrow> uint256"
  hasSubmitted :: "uint256 \<Rightarrow> address \<Rightarrow> bool"
  decryptionContexts :: "uint256 \<Rightarrow> DecryptionContext"
  emitted :: "event list"

text \<open>
  What a call brings with it: \<^verbatim>\<open>msg.sender\<close>, \<^verbatim>\<open>block.timestamp\<close>, and the request
  identifier that \<^verbatim>\<open>FHE.requestDecryption\<close> returns when the call makes that request
  (the identifier is issued by the co-processor, outside the contract).
\<close>

record tx =
  msg_sender :: address
  block_timestamp :: uint256
  issued_requestId :: uint256

text \<open>
  The imported FHE library and the hash are not part of the repository; they are
  parameters of the model. \<open>FHE_checkSignatures\<close> is \<open>True\<close> where the library call
  returns and \<open>False\<close> where it reverts (the contract wraps it in \<^verbatim>\<open>try\<close>).
  The other library calls are taken to return; \<open>FHE_init\<close> gives the value its
  memory argument holds after the call.
  \<open>keccak256_abi_encode cts a\<close> stands for \<^verbatim>\<open>keccak256(abi.encode(cts, a))\<close>.
\<close>

record env =
  address_this :: address
  FHE_asEuint32 :: "uint256 \<Rightarrow> euint32"
  FHE_add :: "euint32 \<Rightarrow> euint32 \<Rightarrow> euint32"
  FHE_isInitialized :: "euint32 \<Rightarrow> bool \<times> bytes32"
  FHE_init :: "euint32 \<Rightarrow> bytes32 \<Rightarrow> euint32"
  FHE_toBytes32 :: "euint32 \<Rightarrow> bytes32"
  FHE_checkSignatures :: "uint256 \<Rightarrow> bytes \<Rightarrow> bytes \<Rightarrow> bool"
  keccak256_abi_encode :: "bytes32 list \<Rightarrow> address \<Rightarrow> bytes32"

datatype exit = Return state | Revert error state

text \<open>A reverted call leaves the storage and the log as they were before it.\<close>

fun transact :: "state \<Rightarrow> exit \<Rightarrow> error option \<times> state" where
  "transact s (Return s') = (None, s')"
| "transact s (Revert e s') = (Some e, s)"

subsection \<open>Arithmetic and decoding\<close>

text \<open>Addition of two \<^verbatim>\<open>uint256\<close> in Solidity 0.8: \<open>None\<close> is the overflow panic.\<close>

definition checked_add :: "uint256 \<Rightarrow> uint256 \<Rightarrow> uint256 option" where
  "checked_add a b = (if unat a + unat b < 2 ^ 256 then Some (a + b) else None)"

text \<open>
  \<^verbatim>\<open>abi.decode(cleartexts, (uint256))\<close>: the first 32 bytes, big-endian; it reverts
  on fewer than 32 bytes.
\<close>

definition abi_decode_uint256 :: "bytes \<Rightarrow> uint256 option" where
  "abi_decode_uint256 bs =
     (if length bs < 32 then None
      else Some (foldl (\<lambda>acc b. acc * 256 + ucast b) 0 (take 32 bs)))"

definition emit :: "event \<Rightarrow> state \<Rightarrow> state" where
  "emit e s = s\<lparr>emitted := emitted s @ [e]\<rparr>"

subsection \<open>Modifiers (lines 55-82)\<close>

definition onlyOwner :: "tx \<Rightarrow> state \<Rightarrow> exit \<Rightarrow> exit" where
  "onlyOwner t s body = (if msg_sender t \<noteq> owner s then Revert NotOwner s else body)"

definition onlyProvider :: "tx \<Rightarrow> state \<Rightarrow> exit \<Rightarrow> exit" where
  "onlyProvider t s body = (if \<not> providers s (msg_sender t) then Revert NotProvider s else body)"

definition whenNotPaused :: "state \<Rightarrow> exit \<Rightarrow> exit" where
  "whenNotPaused s body = (if paused s then Revert Paused s else body)"

definition submissionCooldown :: "tx \<Rightarrow> state \<Rightarrow> address \<Rightarrow> exit \<Rightarrow> exit" where
  "submissionCooldown t s submitter body =
     (case checked_add (lastSubmissionTime s submitter) (cooldownSeconds s) of
        None \<Rightarrow> Revert Panic s
      | Some limit \<Rightarrow> if block_timestamp t < limit then Revert CooldownActive s else body)"

definition decryptionRequestCooldown :: "tx \<Rightarrow> state \<Rightarrow> address \<Rightarrow> exit \<Rightarrow> exit" where
  "decryptionRequestCooldown t s requester body =
     (case checked_add (lastDecryptionRequestTime s requester) (cooldownSeconds s) of
        None \<Rightarrow> Revert Panic s
      | Some limit \<Rightarrow> if block_timestamp t < limit then Revert CooldownActive s else body)"

subsection \<open>Internal functions (lines 214-223)\<close>

definition hashCiphertexts :: "env \<Rightarrow> bytes32 list \<Rightarrow> bytes32" where
  "hashCiphertexts E cts = keccak256_abi_encode E cts (address_this E)"

text \<open>\<^verbatim>\<open>_initIfNeeded\<close>: the result is the value its memory argument holds afterwards.\<close>

definition initIfNeeded :: "env \<Rightarrow> euint32 \<Rightarrow> euint32" where
  "initIfNeeded E val =
     (case FHE_isInitialized E val of
        (initialized, pubKey) \<Rightarrow> if \<not> initialized then FHE_init E val pubKey else val)"

subsection \<open>Constructor and external functions (lines 84-212)\<close>

text \<open>The storage before the constructor runs: every slot zero.\<close>

definition zero_state :: state where
  "zero_state =
     \<lparr>owner = 0, providers = (\<lambda>_. False), paused = False, cooldownSeconds = 0,
      lastSubmissionTime = (\<lambda>_. 0), lastDecryptionRequestTime = (\<lambda>_. 0),
      currentBatchId = 0, batchOpen = False, encryptedDataSum = (\<lambda>_. 0),
      dataCount = (\<lambda>_. 0), hasSubmitted = (\<lambda>_ _. False),
      decryptionContexts = (\<lambda>_. \<lparr>batchId = 0, stateHash = 0, processed = False\<rparr>),
      emitted = []\<rparr>"

definition constructor :: "address \<Rightarrow> state" where
  "constructor sender =
     (let s1 = zero_state\<lparr>owner := sender\<rparr>;
          s2 = s1\<lparr>providers := (providers s1)(sender := True)\<rparr>;
          s3 = s2\<lparr>cooldownSeconds := 60\<rparr>;
          s4 = s3\<lparr>currentBatchId := 0\<rparr>
      in s4\<lparr>batchOpen := False\<rparr>)"

definition addProvider :: "tx \<Rightarrow> address \<Rightarrow> state \<Rightarrow> exit" where
  "addProvider t provider s =
     onlyOwner t s
       (Return (emit (E_ProviderAdded provider)
          (s\<lparr>providers := (providers s)(provider := True)\<rparr>)))"

definition removeProvider :: "tx \<Rightarrow> address \<Rightarrow> state \<Rightarrow> exit" where
  "removeProvider t provider s =
     onlyOwner t s
       (Return (emit (E_ProviderRemoved provider)
          (s\<lparr>providers := (providers s)(provider := False)\<rparr>)))"

definition setCooldownSeconds :: "tx \<Rightarrow> uint256 \<Rightarrow> state \<Rightarrow> exit" where
  "setCooldownSeconds t newCooldownSeconds s =
     onlyOwner t s
       (if newCooldownSeconds = 0 then Revert InvalidArgument s
        else let oldCooldownSeconds = cooldownSeconds s;
                 s1 = s\<lparr>cooldownSeconds := newCooldownSeconds\<rparr>
             in Return (emit (E_CooldownSet oldCooldownSeconds newCooldownSeconds) s1))"

definition pause :: "tx \<Rightarrow> state \<Rightarrow> exit" where
  "pause t s =
     onlyOwner t s (whenNotPaused s
       (Return (emit (E_Paused (msg_sender t)) (s\<lparr>paused := True\<rparr>))))"

definition unpause :: "tx \<Rightarrow> state \<Rightarrow> exit" where
  "unpause t s =
     onlyOwner t s (Return (emit (E_Unpaused (msg_sender t)) (s\<lparr>paused := False\<rparr>)))"

definition openBatch :: "env \<Rightarrow> tx \<Rightarrow> state \<Rightarrow> exit" where
  "openBatch E t s =
     onlyOwner t s (whenNotPaused s
       (if batchOpen s then Revert InvalidArgument s
        else case checked_add (currentBatchId s) 1 of
          None \<Rightarrow> Revert Panic s
        | Some n \<Rightarrow>
            let s1 = s\<lparr>currentBatchId := n\<rparr>;
                s2 = s1\<lparr>batchOpen := True\<rparr>;
                s3 = s2\<lparr>encryptedDataSum :=
                        (encryptedDataSum s2)(currentBatchId s2 := FHE_asEuint32 E 0)\<rparr>;
                s4 = s3\<lparr>dataCount := (dataCount s3)(currentBatchId s3 := 0)\<rparr>
            in Return (emit (E_BatchOpened (currentBatchId s4)) s4)))"

definition closeBatch :: "tx \<Rightarrow> state \<Rightarrow> exit" where
  "closeBatch t s =
     onlyOwner t s (whenNotPaused s
       (if \<not> batchOpen s then Revert BatchNotOpen s
        else let s1 = s\<lparr>batchOpen := False\<rparr>
             in Return (emit (E_BatchClosed (currentBatchId s1)) s1)))"

definition submitData :: "env \<Rightarrow> tx \<Rightarrow> uint256 \<Rightarrow> state \<Rightarrow> exit" where
  "submitData E t encryptedValue s =
     onlyProvider t s (whenNotPaused s (submissionCooldown t s (msg_sender t)
       (if \<not> batchOpen s then Revert BatchNotOpen s
        else if hasSubmitted s (currentBatchId s) (msg_sender t) then Revert InvalidArgument s
        else
          let encryptedVal = initIfNeeded E (FHE_asEuint32 E encryptedValue);
              s1 = s\<lparr>encryptedDataSum := (encryptedDataSum s)(currentBatchId s :=
                        FHE_add E (encryptedDataSum s (currentBatchId s)) encryptedVal)\<rparr>
          in case checked_add (dataCount s1 (currentBatchId s1)) 1 of
               None \<Rightarrow> Revert Panic s1
             | Some c \<Rightarrow>
                 let s2 = s1\<lparr>dataCount := (dataCount s1)(currentBatchId s1 := c)\<rparr>;
                     s3 = s2\<lparr>hasSubmitted := (hasSubmitted s2)(currentBatchId s2 :=
                            (hasSubmitted s2 (currentBatchId s2))(msg_sender t := True))\<rparr>;
                     s4 = s3\<lparr>lastSubmissionTime :=
                            (lastSubmissionTime s3)(msg_sender t := block_timestamp t)\<rparr>
                 in Return (emit (E_DataSubmitted (msg_sender t) (currentBatchId s4)
                                    encryptedValue) s4))))"

definition requestBatchResultDecryption :: "env \<Rightarrow> tx \<Rightarrow> state \<Rightarrow> exit" where
  "requestBatchResultDecryption E t s =
     onlyProvider t s (whenNotPaused s (decryptionRequestCooldown t s (msg_sender t)
       (if batchOpen s then Revert BatchNotClosed s
        else if dataCount s (currentBatchId s) = 0 then Revert InvalidArgument s
        else
          let unused = initIfNeeded E (encryptedDataSum s (currentBatchId s));
              cts = [FHE_toBytes32 E (encryptedDataSum s (currentBatchId s))];
              stateHash = hashCiphertexts E cts;
              requestId = issued_requestId t;
              s1 = s\<lparr>decryptionContexts := (decryptionContexts s)(requestId :=
                        \<lparr>batchId = currentBatchId s, stateHash = stateHash,
                         processed = False\<rparr>)\<rparr>;
              s2 = s1\<lparr>lastDecryptionRequestTime :=
                        (lastDecryptionRequestTime s1)(msg_sender t := block_timestamp t)\<rparr>
          in Return (emit (E_DecryptionRequested requestId (currentBatchId s2)) s2))))"

text \<open>The write \<^verbatim>\<open>decryptionContexts[requestId].processed = true\<close>.\<close>

definition mark_processed :: "uint256 \<Rightarrow> state \<Rightarrow> state" where
  "mark_processed requestId s =
     s\<lparr>decryptionContexts := (decryptionContexts s)(requestId :=
          (decryptionContexts s requestId)\<lparr>processed := True\<rparr>)\<rparr>"

definition myCallback :: "env \<Rightarrow> uint256 \<Rightarrow> bytes \<Rightarrow> bytes \<Rightarrow> state \<Rightarrow> exit" where
  "myCallback E requestId cleartexts prf s =
     (if processed (decryptionContexts s requestId) then Revert ReplayDetected s
      else
        let batchId = batchId (decryptionContexts s requestId);
            currentEncryptedSum = encryptedDataSum s batchId;
            initialized = fst (FHE_isInitialized E currentEncryptedSum)
        in if \<not> initialized then Revert DecryptionFailed (mark_processed requestId s)
           else
             let currentCts = [FHE_toBytes32 E currentEncryptedSum];
                 currentStateHash = hashCiphertexts E currentCts
             in if currentStateHash \<noteq> stateHash (decryptionContexts s requestId)
                then Revert StateMismatch (mark_processed requestId s)
                else if FHE_checkSignatures E requestId cleartexts prf
                then (case abi_decode_uint256 cleartexts of
                        None \<Rightarrow> Revert DecodeFailure s
                      | Some sum_value \<Rightarrow>
                          Return (emit (E_DecryptionCompleted requestId batchId sum_value)
                                    (mark_processed requestId s)))
                else Revert DecryptionFailed (mark_processed requestId s))"

subsection \<open>The public interface\<close>

datatype call =
    AddProvider address
  | RemoveProvider address
  | SetCooldownSeconds uint256
  | Pause
  | Unpause
  | OpenBatch
  | CloseBatch
  | SubmitData uint256
  | RequestBatchResultDecryption
  | MyCallback uint256 bytes bytes

fun body :: "env \<Rightarrow> tx \<Rightarrow> call \<Rightarrow> state \<Rightarrow> exit" where
  "body E t (AddProvider a) s = addProvider t a s"
| "body E t (RemoveProvider a) s = removeProvider t a s"
| "body E t (SetCooldownSeconds n) s = setCooldownSeconds t n s"
| "body E t Pause s = pause t s"
| "body E t Unpause s = unpause t s"
| "body E t OpenBatch s = openBatch E t s"
| "body E t CloseBatch s = closeBatch t s"
| "body E t (SubmitData v) s = submitData E t v s"
| "body E t RequestBatchResultDecryption s = requestBatchResultDecryption E t s"
| "body E t (MyCallback r c p) s = myCallback E r c p s"

text \<open>One call from outside: the error it fails with, if any, and the storage afterwards.\<close>

definition exec :: "env \<Rightarrow> tx \<Rightarrow> call \<Rightarrow> state \<Rightarrow> error option \<times> state" where
  "exec E t c s = transact s (body E t c s)"

text \<open>A sequence of calls, each with what it brings along.\<close>

fun run :: "env \<Rightarrow> (tx \<times> call) list \<Rightarrow> state \<Rightarrow> state" where
  "run E [] s = s"
| "run E ((t, c) # cs) s = run E cs (snd (exec E t c s))"

text \<open>The storages the contract can be in: deployed by some account, then called.\<close>

inductive reachable :: "env \<Rightarrow> state \<Rightarrow> bool" for E :: env where
  deployed: "reachable E (constructor sender)"
| called: "reachable E s \<Longrightarrow> reachable E (snd (exec E t c s))"

subsection \<open>Invariants of the reachable storages\<close>

text \<open>
  Batch 0 is never opened: its accumulator stays the zero handle, and a batch is open only
  at an id other than 0. Nobody is marked as having submitted to a batch that is yet to come.
\<close>

definition batch_inv :: "state \<Rightarrow> bool" where
  "batch_inv s \<longleftrightarrow>
     encryptedDataSum s 0 = 0
     \<and> (batchOpen s \<longrightarrow> currentBatchId s \<noteq> 0)
     \<and> (\<forall>b p. currentBatchId s < b \<longrightarrow> \<not> hasSubmitted s b p)"



subsection \<open>Concrete inputs\<close>

text \<open>
  A stand-in for the library and the hash, to run the contract on concrete inputs: the
  handle of a value is the value plus one, so that the zero handle is the only one not
  initialised; a proof is valid when it is the byte 1. The states are those of one
  scenario: account 1 deploys, opens batch 1 at time 100, submits 10, closes the batch,
  requests decryption at time 200 (the co-processor issues request 5), and the callback
  resolves it. From there request 6 is issued (\<open>st_resolved_again\<close>), or the
  co-processor issues request 5 a second time (\<open>st_reissued\<close>). Off the pending
  request: batch 2 is opened (\<open>st_next\<close>), the system is paused
  (\<open>st_pending_paused\<close>), the owner sets the longest cooldown
  (\<open>st_long_cooldown\<close>). \<open>st_paused\<close> is the open batch with the system paused.
\<close>

definition sim_env :: env where
  "sim_env =
     \<lparr>address_this = 0xC0DE,
      FHE_asEuint32 = (\<lambda>v. v + 1),
      FHE_add = (\<lambda>a b. a + b - 1),
      FHE_isInitialized = (\<lambda>h. (h \<noteq> 0, 0)),
      FHE_init = (\<lambda>h k. 1),
      FHE_toBytes32 = (\<lambda>h. h),
      FHE_checkSignatures = (\<lambda>r c p. p = [1]),
      keccak256_abi_encode = (\<lambda>cts a. sum_list cts + ucast a + 7)\<rparr>"

definition mk_tx :: "address \<Rightarrow> uint256 \<Rightarrow> uint256 \<Rightarrow> tx" where
  "mk_tx a time rid = \<lparr>msg_sender = a, block_timestamp = time, issued_requestId = rid\<rparr>"

definition cleartext10 :: bytes where
  "cleartext10 = replicate 31 0 @ [10]"

definition st_open :: state where
  "st_open =
     \<lparr>owner = 1, providers = (\<lambda>_. False)(1 := True), paused = False,
      cooldownSeconds = 60, lastSubmissionTime = (\<lambda>_. 0),
      lastDecryptionRequestTime = (\<lambda>_. 0), currentBatchId = 1, batchOpen = True,
      encryptedDataSum = (\<lambda>_. 0)(1 := 1), dataCount = (\<lambda>_. 0)(1 := 0),
      hasSubmitted = (\<lambda>_ _. False),
      decryptionContexts = (\<lambda>_. \<lparr>batchId = 0, stateHash = 0, processed = False\<rparr>),
      emitted = [E_BatchOpened 1]\<rparr>"

definition st_submitted :: state where
  "st_submitted =
     st_open\<lparr>lastSubmissionTime := (\<lambda>_. 0)(1 := 100),
             encryptedDataSum := (\<lambda>_. 0)(1 := 11), dataCount := (\<lambda>_. 0)(1 := 1),
             hasSubmitted := (\<lambda>_ _. False)(1 := (\<lambda>_. False)(1 := True)),
             emitted := [E_BatchOpened 1, E_DataSubmitted 1 1 10]\<rparr>"

definition st_closed :: state where
  "st_closed =
     st_submitted\<lparr>batchOpen := False,
                  emitted := [E_BatchOpened 1, E_DataSubmitted 1 1 10, E_BatchClosed 1]\<rparr>"

definition st_pending :: state where
  "st_pending =
     st_closed\<lparr>lastDecryptionRequestTime := (\<lambda>_. 0)(1 := 200),
               decryptionContexts :=
                 (\<lambda>_. \<lparr>batchId = 0, stateHash = 0, processed = False\<rparr>)
                 (5 := \<lparr>batchId = 1, stateHash = 49392, processed = False\<rparr>),
               emitted := [E_BatchOpened 1, E_DataSubmitted 1 1 10, E_BatchClosed 1,
                           E_DecryptionRequested 5 1]\<rparr>"

definition st_resolved :: state where
  "st_resolved =
     st_pending\<lparr>decryptionContexts :=
                 (\<lambda>_. \<lparr>batchId = 0, stateHash = 0, processed = False\<rparr>)
                 (5 := \<lparr>batchId = 1, stateHash = 49392, processed = True\<rparr>),
               emitted := [E_BatchOpened 1, E_DataSubmitted 1 1 10, E_BatchClosed 1,
                           E_DecryptionRequested 5 1, E_DecryptionCompleted 5 1 10]\<rparr>"

definition st_paused :: state where
  "st_paused = st_open\<lparr>paused := True, emitted := [E_BatchOpened 1, E_Paused 1]\<rparr>"




definition st_pending_paused :: state where
  "st_pending_paused =
     st_pending\<lparr>paused := True,
                emitted := [E_BatchOpened 1, E_DataSubmitted 1 1 10, E_BatchClosed 1,
                            E_DecryptionRequested 5 1, E_Paused 1]\<rparr>"

definition st_long_cooldown :: state where
  "st_long_cooldown =
     st_pending\<lparr>cooldownSeconds := 115792089237316195423570985008687907853269984665640564039457584007913129639935,
                emitted := [E_BatchOpened 1, E_DataSubmitted 1 1 10, E_BatchClosed 1,
                            E_DecryptionRequested 5 1, E_CooldownSet 60
                              115792089237316195423570985008687907853269984665640564039457584007913129639935]\<rparr>"

section \<open>Properties\<close>

subsection \<open>What each call does\<close>

lemma transact_failed: "fst (transact s x) = Some e \<Longrightarrow> snd (transact s x) = s"
  by (cases x) simp_all

lemma checked_add_Some: "checked_add a b = Some c \<Longrightarrow> c = a + b \<and> unat c = unat a + unat b"
  by (auto simp: checked_add_def unat_word_ariths split: if_splits)

lemma checked_add_one: "checked_add a 1 = Some c \<Longrightarrow> c \<noteq> 0 \<and> a < c"
proof -
  assume "checked_add a 1 = Some c"
  then have "unat c = unat a + unat (1 :: uint256)"
    by (rule checked_add_Some [THEN conjunct2])
  then have u: "unat c = unat a + 1"
    by simp
  then have "c \<noteq> 0" by auto
  moreover from u have "a < c" by (simp add: word_less_nat_alt)
  ultimately show ?thesis by simp
qed

lemma exec_addProvider:
  "exec E t (AddProvider a) s =
     (if msg_sender t \<noteq> owner s then (Some NotOwner, s)
      else (None, s\<lparr>providers := (providers s)(a := True),
                     emitted := emitted s @ [E_ProviderAdded a]\<rparr>))"
  by (simp add: exec_def addProvider_def onlyOwner_def emit_def)

lemma exec_removeProvider:
  "exec E t (RemoveProvider a) s =
     (if msg_sender t \<noteq> owner s then (Some NotOwner, s)
      else (None, s\<lparr>providers := (providers s)(a := False),
                     emitted := emitted s @ [E_ProviderRemoved a]\<rparr>))"
  by (simp add: exec_def removeProvider_def onlyOwner_def emit_def)

lemma exec_setCooldownSeconds:
  "exec E t (SetCooldownSeconds n) s =
     (if msg_sender t \<noteq> owner s then (Some NotOwner, s)
      else if n = 0 then (Some InvalidArgument, s)
      else (None, s\<lparr>cooldownSeconds := n,
                     emitted := emitted s @ [E_CooldownSet (cooldownSeconds s) n]\<rparr>))"
  by (simp add: exec_def setCooldownSeconds_def onlyOwner_def emit_def)

lemma exec_pause:
  "exec E t Pause s =
     (if msg_sender t \<noteq> owner s then (Some NotOwner, s)
      else if paused s then (Some Paused, s)
      else (None, s\<lparr>paused := True, emitted := emitted s @ [E_Paused (msg_sender t)]\<rparr>))"
  by (simp add: exec_def pause_def onlyOwner_def whenNotPaused_def emit_def)

lemma exec_unpause:
  "exec E t Unpause s =
     (if msg_sender t \<noteq> owner s then (Some NotOwner, s)
      else (None, s\<lparr>paused := False, emitted := emitted s @ [E_Unpaused (msg_sender t)]\<rparr>))"
  by (simp add: exec_def unpause_def onlyOwner_def emit_def)

lemma exec_openBatch:
  "exec E t OpenBatch s =
     (if msg_sender t \<noteq> owner s then (Some NotOwner, s)
      else if paused s then (Some Paused, s)
      else if batchOpen s then (Some InvalidArgument, s)
      else case checked_add (currentBatchId s) 1 of
        None \<Rightarrow> (Some Panic, s)
      | Some n \<Rightarrow>
          (None, s\<lparr>currentBatchId := n, batchOpen := True,
                   encryptedDataSum := (encryptedDataSum s)(n := FHE_asEuint32 E 0),
                   dataCount := (dataCount s)(n := 0),
                   emitted := emitted s @ [E_BatchOpened n]\<rparr>))"
  by (simp add: exec_def openBatch_def onlyOwner_def whenNotPaused_def emit_def
      split: option.splits)

lemma exec_closeBatch:
  "exec E t CloseBatch s =
     (if msg_sender t \<noteq> owner s then (Some NotOwner, s)
      else if paused s then (Some Paused, s)
      else if \<not> batchOpen s then (Some BatchNotOpen, s)
      else (None, s\<lparr>batchOpen := False,
                     emitted := emitted s @ [E_BatchClosed (currentBatchId s)]\<rparr>))"
  by (simp add: exec_def closeBatch_def onlyOwner_def whenNotPaused_def emit_def)

lemma exec_submitData:
  "exec E t (SubmitData v) s =
     (if \<not> providers s (msg_sender t) then (Some NotProvider, s)
      else if paused s then (Some Paused, s)
      else case checked_add (lastSubmissionTime s (msg_sender t)) (cooldownSeconds s) of
        None \<Rightarrow> (Some Panic, s)
      | Some limit \<Rightarrow>
          if block_timestamp t < limit then (Some CooldownActive, s)
          else if \<not> batchOpen s then (Some BatchNotOpen, s)
          else if hasSubmitted s (currentBatchId s) (msg_sender t) then (Some InvalidArgument, s)
          else case checked_add (dataCount s (currentBatchId s)) 1 of
            None \<Rightarrow> (Some Panic, s)
          | Some c \<Rightarrow>
              (None, s\<lparr>lastSubmissionTime :=
                         (lastSubmissionTime s)(msg_sender t := block_timestamp t),
                       encryptedDataSum := (encryptedDataSum s)(currentBatchId s :=
                         FHE_add E (encryptedDataSum s (currentBatchId s))
                           (initIfNeeded E (FHE_asEuint32 E v))),
                       dataCount := (dataCount s)(currentBatchId s := c),
                       hasSubmitted := (hasSubmitted s)(currentBatchId s :=
                         (hasSubmitted s (currentBatchId s))(msg_sender t := True)),
                       emitted := emitted s @
                         [E_DataSubmitted (msg_sender t) (currentBatchId s) v]\<rparr>))"
  by (simp add: exec_def submitData_def onlyProvider_def whenNotPaused_def
      submissionCooldown_def emit_def Let_def split: option.splits)

lemma exec_requestBatchResultDecryption:
  "exec E t RequestBatchResultDecryption s =
     (if \<not> providers s (msg_sender t) then (Some NotProvider, s)
      else if paused s then (Some Paused, s)
      else case checked_add (lastDecryptionRequestTime s (msg_sender t)) (cooldownSeconds s) of
        None \<Rightarrow> (Some Panic, s)
      | Some limit \<Rightarrow>
          if block_timestamp t < limit then (Some CooldownActive, s)
          else if batchOpen s then (Some BatchNotClosed, s)
          else if dataCount s (currentBatchId s) = 0 then (Some InvalidArgument, s)
          else
            (None, s\<lparr>lastDecryptionRequestTime :=
                       (lastDecryptionRequestTime s)(msg_sender t := block_timestamp t),
                     decryptionContexts := (decryptionContexts s)(issued_requestId t :=
                       \<lparr>batchId = currentBatchId s,
                        stateHash = hashCiphertexts E
                          [FHE_toBytes32 E (encryptedDataSum s (currentBatchId s))],
                        processed = False\<rparr>),
                     emitted := emitted s @
                       [E_DecryptionRequested (issued_requestId t) (currentBatchId s)]\<rparr>))"
  by (simp add: exec_def requestBatchResultDecryption_def onlyProvider_def whenNotPaused_def
      decryptionRequestCooldown_def emit_def Let_def split: option.splits)

lemma exec_myCallback:
  "exec E t (MyCallback r c p) s =
     (let ctx = decryptionContexts s r; acc = encryptedDataSum s (batchId ctx) in
      if processed ctx then (Some ReplayDetected, s)
      else if \<not> fst (FHE_isInitialized E acc) then (Some DecryptionFailed, s)
      else if hashCiphertexts E [FHE_toBytes32 E acc] \<noteq> stateHash ctx
      then (Some StateMismatch, s)
      else if \<not> FHE_checkSignatures E r c p then (Some DecryptionFailed, s)
      else case abi_decode_uint256 c of
        None \<Rightarrow> (Some DecodeFailure, s)
      | Some v \<Rightarrow>
          (None, s\<lparr>decryptionContexts := (decryptionContexts s)(r := ctx\<lparr>processed := True\<rparr>),
                   emitted := emitted s @ [E_DecryptionCompleted r (batchId ctx) v]\<rparr>))"
  by (simp add: exec_def myCallback_def mark_processed_def emit_def Let_def
      split: option.splits)

text \<open>
  Where a body reverts, the storage is the one the call started with, except for the
  writes that the revert then discards: \<open>processed = true\<close> in \<open>myCallback\<close>, and
  the accumulator in \<open>submitData\<close> when the count overflows.
\<close>

lemma revert_point:
  assumes "body E t c s = Revert e s'"
  shows "s' = s
     \<or> (\<exists>r x p. c = MyCallback r x p \<and> (e = DecryptionFailed \<or> e = StateMismatch)
            \<and> s' = mark_processed r s)
     \<or> (\<exists>v. c = SubmitData v \<and> e = Panic)"
proof (cases c)
  case (SubmitData v)
  with assms show ?thesis
    by (auto simp: submitData_def onlyProvider_def whenNotPaused_def submissionCooldown_def
        Let_def split: option.splits if_splits)
next
  case RequestBatchResultDecryption
  with assms show ?thesis
    by (auto simp: requestBatchResultDecryption_def onlyProvider_def whenNotPaused_def
        decryptionRequestCooldown_def Let_def split: option.splits if_splits)
next
  case (MyCallback r x p)
  with assms show ?thesis
    by (auto simp: myCallback_def Let_def split: option.splits if_splits)
next
  case OpenBatch
  with assms show ?thesis
    by (auto simp: openBatch_def onlyOwner_def whenNotPaused_def Let_def
        split: option.splits if_splits)
qed (use assms in \<open>auto simp: addProvider_def removeProvider_def setCooldownSeconds_def
  pause_def unpause_def closeBatch_def onlyOwner_def whenNotPaused_def Let_def
  split: if_splits\<close>)

lemmas exec_simps = exec_addProvider exec_removeProvider exec_setCooldownSeconds exec_pause
  exec_unpause exec_openBatch exec_closeBatch exec_submitData
  exec_requestBatchResultDecryption exec_myCallback

lemma batch_inv_constructor: "batch_inv (constructor a)"
  by (simp add: batch_inv_def constructor_def zero_state_def)

lemma batch_inv_exec: "batch_inv s \<Longrightarrow> batch_inv (snd (exec E t c s))"
proof (cases c)
  case OpenBatch
  assume "batch_inv s"
  then show ?thesis
    unfolding OpenBatch exec_openBatch batch_inv_def
    by (auto split: option.splits dest!: checked_add_one)
next
  case (SubmitData v)
  assume "batch_inv s"
  then show ?thesis
    unfolding SubmitData exec_submitData batch_inv_def
    by (auto split: option.splits)
qed (auto simp: exec_simps batch_inv_def Let_def split: option.splits)

lemma reachable_batch_inv: "reachable E s \<Longrightarrow> batch_inv s"
  by (induction rule: reachable.induct) (simp_all add: batch_inv_constructor batch_inv_exec)

subsection \<open>The scenario, step by step\<close>

lemmas st_defs = st_open_def st_submitted_def st_closed_def st_pending_def st_resolved_def

lemma decode_cleartext10: "abi_decode_uint256 cleartext10 = Some 10"
  unfolding cleartext10_def by code_simp

lemma step_open: "exec sim_env (mk_tx 1 100 0) OpenBatch (constructor 1) = (None, st_open)"
  by (simp add: exec_openBatch checked_add_def constructor_def zero_state_def sim_env_def
      mk_tx_def st_defs)

lemma step_submit: "exec sim_env (mk_tx 1 100 0) (SubmitData 10) st_open = (None, st_submitted)"
  by (simp add: exec_submitData checked_add_def initIfNeeded_def sim_env_def mk_tx_def st_defs)

lemma step_close: "exec sim_env (mk_tx 1 101 0) CloseBatch st_submitted = (None, st_closed)"
  by (simp add: exec_closeBatch mk_tx_def st_defs)

lemma step_request:
  "exec sim_env (mk_tx 1 200 5) RequestBatchResultDecryption st_closed = (None, st_pending)"
  by (simp add: exec_requestBatchResultDecryption checked_add_def hashCiphertexts_def
      sim_env_def mk_tx_def st_defs)


lemma step_pause: "exec sim_env (mk_tx 1 150 0) Pause st_open = (None, st_paused)"
  by (simp add: exec_pause mk_tx_def st_defs st_paused_def)




lemma step_pause_pending:
  "exec sim_env (mk_tx 1 250 0) Pause st_pending = (None, st_pending_paused)"
  by (simp add: exec_pause mk_tx_def st_defs st_pending_paused_def)

lemma step_long_cooldown:
  "exec sim_env (mk_tx 1 250 0)
     (SetCooldownSeconds
        115792089237316195423570985008687907853269984665640564039457584007913129639935)
     st_pending = (None, st_long_cooldown)"
  by (simp add: exec_setCooldownSeconds mk_tx_def st_defs st_long_cooldown_def)

lemma panic_long_cooldown:
  "exec sim_env (mk_tx 1 300 6) RequestBatchResultDecryption st_long_cooldown
     = (Some Panic, st_long_cooldown)"
  by (simp add: exec_requestBatchResultDecryption checked_add_def mk_tx_def st_defs
      st_long_cooldown_def)

subsection \<open>Auxiliary facts\<close>

lemma checked_add_succ: "unat a < 2 ^ 256 - 1 \<Longrightarrow> checked_add a 1 = Some (a + 1)"
  by (simp add: checked_add_def)

lemma cooldown_cases:
  "checked_add a b = (if unat a + unat b < 2 ^ 256 then Some (a + b) else None)"
  "unat a + unat b < 2 ^ 256 \<Longrightarrow> (ts < a + b) = (unat ts < unat a + unat b)"
proof -
  show "checked_add a b = (if unat a + unat b < 2 ^ 256 then Some (a + b) else None)"
    by (simp add: checked_add_def)
  assume "unat a + unat b < 2 ^ 256"
  then have "checked_add a b = Some (a + b)"
    by (simp add: checked_add_def)
  from checked_add_Some [OF this] show "(ts < a + b) = (unat ts < unat a + unat b)"
    by (simp add: word_less_nat_alt)
qed

lemma paused_same: "paused s \<Longrightarrow> s\<lparr>paused := True\<rparr> = s"
  by (cases s) simp

lemma hasSubmitted_exec:
  "hasSubmitted s b a \<Longrightarrow> hasSubmitted (snd (exec E t c s)) b a"
  by (cases c) (auto simp: exec_simps Let_def split: option.splits)

lemma hasSubmitted_run: "hasSubmitted s b a \<Longrightarrow> hasSubmitted (run E cs s) b a"
  by (induction cs arbitrary: s) (auto simp: hasSubmitted_exec)

lemma submitData_success:
  assumes "fst (exec E t (SubmitData v) s) = None"
  shows "hasSubmitted (snd (exec E t (SubmitData v) s)) (currentBatchId s) (msg_sender t)"
  using assms by (auto simp: exec_submitData split: option.splits if_splits)






lemma failure_leaves_pending:
  assumes "fst (exec E t (MyCallback r c p) s) = Some e" and "e \<noteq> ReplayDetected"
  shows "\<not> processed (decryptionContexts (snd (exec E t (MyCallback r c p) s)) r)"
  using assms by (auto simp: exec_myCallback Let_def split: option.splits if_splits)













text \<open>What the comparison at lines 199-202 does, in any storage.\<close>

lemma mismatch_guard:
  assumes "\<not> processed (decryptionContexts s r)"
    and "fst (FHE_isInitialized E (encryptedDataSum s (batchId (decryptionContexts s r))))"
    and "hashCiphertexts E
           [FHE_toBytes32 E (encryptedDataSum s (batchId (decryptionContexts s r)))]
         \<noteq> stateHash (decryptionContexts s r)"
  shows "exec E t (MyCallback r c p) s = (Some StateMismatch, s)"
  using assms by (simp add: exec_myCallback)

text \<open>
  A write that the revert discards, in a state the scenario reaches: on a failed proof
  the body marks the context processed, and the caller sees the context still pending.
\<close>

lemma failed_proof_leaves_pending:
  "myCallback sim_env 5 cleartext10 [0] st_pending
     = Revert DecryptionFailed (mark_processed 5 st_pending)
   \<and> exec sim_env (mk_tx 9 300 0) (MyCallback 5 cleartext10 [0]) st_pending
       = (Some DecryptionFailed, st_pending)"
  by (simp add: myCallback_def exec_myCallback hashCiphertexts_def sim_env_def st_defs)

lemma scenario_reachable: "reachable sim_env st_pending"
proof -
  have "reachable sim_env (constructor 1)"
    by (rule reachable.deployed)
  from reachable.called [OF this, of "mk_tx 1 100 0" OpenBatch]
  have "reachable sim_env st_open" by (simp add: step_open)
  from reachable.called [OF this, of "mk_tx 1 100 0" "SubmitData 10"]
  have "reachable sim_env st_submitted" by (simp add: step_submit)
  from reachable.called [OF this, of "mk_tx 1 101 0" CloseBatch]
  have "reachable sim_env st_closed" by (simp add: step_close)
  from reachable.called [OF this, of "mk_tx 1 200 5" RequestBatchResultDecryption]
  show ?thesis by (simp add: step_request)
qed



subsection \<open>The claims\<close>

text \<open>
  C1 (as the code has it). The contract has no error for an unknown request: a request id
  with no stored context reads as the all-zero context, which names batch 0. Batch 0 is
  never opened, so its accumulator is the zero handle; where the library counts the zero
  handle as not initialised, \<open>myCallback\<close> on such an id fails with
  \<open>DecryptionFailed\<close>, for every cleartext and proof, and changes nothing.
\<close>

theorem unknown_request_DecryptionFailed:
  assumes "reachable E s"
    and "decryptionContexts s r = \<lparr>batchId = 0, stateHash = 0, processed = False\<rparr>"
    and "\<not> fst (FHE_isInitialized E 0)"
  shows "exec E t (MyCallback r c p) s = (Some DecryptionFailed, s)"
  using reachable_batch_inv [OF assms(1)] assms(2, 3)
  by (simp add: exec_myCallback batch_inv_def)

text \<open>C1 as the code has it, at a request id never issued, after another one was.\<close>

theorem unknown_request_DecryptionFailed_witness:
  "reachable sim_env st_pending
   \<and> decryptionContexts st_pending 6 = \<lparr>batchId = 0, stateHash = 0, processed = False\<rparr>
   \<and> \<not> fst (FHE_isInitialized sim_env 0)
   \<and> exec sim_env (mk_tx 9 300 0) (MyCallback 6 cleartext10 [1]) st_pending
       = (Some DecryptionFailed, st_pending)"
proof -
  note r = scenario_reachable
  have d: "decryptionContexts st_pending 6 = \<lparr>batchId = 0, stateHash = 0, processed = False\<rparr>"
    by (simp add: st_defs)
  have i: "\<not> fst (FHE_isInitialized sim_env 0)"
    by (simp add: sim_env_def)
  from r d i unknown_request_DecryptionFailed [OF r d i] show ?thesis by simp
qed

text \<open>
  C1 as stated fails: right after deployment, request id 7 has no stored context and
  \<open>myCallback\<close> fails with \<open>DecryptionFailed\<close>, another error kind than the
  UnknownRequest the claim names.
\<close>

theorem unknown_request_counterexample:
  "fst (exec sim_env (mk_tx 2 100 0) (MyCallback 7 [] []) (constructor 1))
     = Some DecryptionFailed"
  by (simp add: exec_myCallback constructor_def zero_state_def sim_env_def)






text \<open>
  C4. For every public operation and every starting state, a call that fails (with any
  error) leaves the post-state equal to the pre-state: storage and event log.
\<close>

theorem failed_call_changes_nothing: "fst (exec E t c s) = Some e \<Longrightarrow> snd (exec E t c s) = s"
  unfolding exec_def by (rule transact_failed)

text \<open>C4 on \<open>openBatch\<close> called by an account that is not the owner.\<close>

theorem failed_call_changes_nothing_witness:
  "fst (exec sim_env (mk_tx 2 100 0) OpenBatch (constructor 1)) = Some NotOwner
   \<and> snd (exec sim_env (mk_tx 2 100 0) OpenBatch (constructor 1)) = constructor 1"
proof -
  have f: "fst (exec sim_env (mk_tx 2 100 0) OpenBatch (constructor 1)) = Some NotOwner"
    by (simp add: exec_openBatch constructor_def zero_state_def mk_tx_def)
  from f failed_call_changes_nothing [OF f] show ?thesis by simp
qed



text \<open>
  C6 (as the code has it). After a successful \<open>submitData\<close> by a provider in a batch,
  and any calls in between, every further \<open>submitData\<close> by the same account while that
  batch is still the current one fails and leaves the whole state, so the count and the
  contributors, unchanged. The error is that of the first guard that fails:
  \<open>NotProvider\<close>, \<open>Paused\<close>, \<open>Panic\<close> when last submission time plus cooldown
  overflows, \<open>CooldownActive\<close> within the cooldown, \<open>BatchNotOpen\<close>; and it is
  \<open>InvalidArgument\<close> (the spec's AlreadyContributed) when all of these pass.
\<close>

theorem resubmission_fails:
  assumes "fst (exec E t (SubmitData v) s) = None"
    and "s' = run E cs (snd (exec E t (SubmitData v) s))"
    and "currentBatchId s' = currentBatchId s"
    and "msg_sender t' = msg_sender t"
  shows "exec E t' (SubmitData v') s' =
     (Some (if \<not> providers s' (msg_sender t') then NotProvider
            else if paused s' then Paused
            else if 2 ^ 256 \<le> unat (lastSubmissionTime s' (msg_sender t'))
                               + unat (cooldownSeconds s') then Panic
            else if unat (block_timestamp t')
                      < unat (lastSubmissionTime s' (msg_sender t'))
                        + unat (cooldownSeconds s') then CooldownActive
            else if \<not> batchOpen s' then BatchNotOpen
            else InvalidArgument), s')"
proof -
  from assms(1) have "hasSubmitted (snd (exec E t (SubmitData v) s)) (currentBatchId s)
      (msg_sender t)"
    by (rule submitData_success)
  then have "hasSubmitted s' (currentBatchId s) (msg_sender t)"
    unfolding assms(2) by (rule hasSubmitted_run)
  with assms(3, 4) have h: "hasSubmitted s' (currentBatchId s') (msg_sender t')"
    by simp
  then show ?thesis
    by (simp add: exec_submitData cooldown_cases not_less)
qed

text \<open>
  C6 as the code has it: submit at time 100, a call by a stranger in between, submit
  again at time 200 with the batch still open.
\<close>

theorem resubmission_fails_witness:
  "fst (exec sim_env (mk_tx 1 100 0) (SubmitData 10) st_open) = None
   \<and> st_submitted = run sim_env [(mk_tx 2 150 0, OpenBatch)]
        (snd (exec sim_env (mk_tx 1 100 0) (SubmitData 10) st_open))
   \<and> currentBatchId st_submitted = currentBatchId st_open
   \<and> msg_sender (mk_tx 1 200 0) = msg_sender (mk_tx 1 100 0)
   \<and> exec sim_env (mk_tx 1 200 0) (SubmitData 20) st_submitted
       = (Some InvalidArgument, st_submitted)"
proof -
  have a: "fst (exec sim_env (mk_tx 1 100 0) (SubmitData 10) st_open) = None"
    by (simp add: step_submit)
  have "exec sim_env (mk_tx 2 150 0) OpenBatch st_submitted = (Some NotOwner, st_submitted)"
    by (simp add: exec_openBatch mk_tx_def st_defs)
  then have b: "st_submitted = run sim_env [(mk_tx 2 150 0, OpenBatch)]
        (snd (exec sim_env (mk_tx 1 100 0) (SubmitData 10) st_open))"
    by (simp add: step_submit)
  have c: "currentBatchId st_submitted = currentBatchId st_open"
    by (simp add: st_defs)
  have d: "msg_sender (mk_tx 1 200 0) = msg_sender (mk_tx 1 100 0)"
    by (simp add: mk_tx_def)
  have e: "(if \<not> providers st_submitted (msg_sender (mk_tx 1 200 0)) then NotProvider
            else if paused st_submitted then Paused
            else if 2 ^ 256 \<le> unat (lastSubmissionTime st_submitted (msg_sender (mk_tx 1 200 0)))
                               + unat (cooldownSeconds st_submitted) then Panic
            else if unat (block_timestamp (mk_tx 1 200 0))
                      < unat (lastSubmissionTime st_submitted (msg_sender (mk_tx 1 200 0)))
                        + unat (cooldownSeconds st_submitted) then CooldownActive
            else if \<not> batchOpen st_submitted then BatchNotOpen
            else InvalidArgument) = InvalidArgument"
    by (simp add: mk_tx_def st_defs)
  from resubmission_fails [OF a b c d, of 20]
  have "exec sim_env (mk_tx 1 200 0) (SubmitData 20) st_submitted
       = (Some InvalidArgument, st_submitted)"
    unfolding e .
  with a b c d show ?thesis by blast
qed

text \<open>
  C6 as stated fails: a second submission 30 seconds after the first, in the same batch,
  fails with \<open>CooldownActive\<close>, not with the already-contributed error.
\<close>

theorem resubmit_counterexample:
  "fst (exec sim_env (mk_tx 1 100 0) (SubmitData 10) st_open) = None
   \<and> snd (exec sim_env (mk_tx 1 100 0) (SubmitData 10) st_open) = st_submitted
   \<and> currentBatchId st_submitted = currentBatchId st_open
   \<and> fst (exec sim_env (mk_tx 1 130 0) (SubmitData 20) st_submitted) = Some CooldownActive"
proof -
  have "fst (exec sim_env (mk_tx 1 130 0) (SubmitData 20) st_submitted) = Some CooldownActive"
    by (simp add: exec_submitData checked_add_def mk_tx_def st_defs)
  moreover have "currentBatchId st_submitted = currentBatchId st_open"
    by (simp add: st_defs)
  ultimately show ?thesis
    by (simp add: step_submit)
qed

text \<open>
  C7 (as the code has it). While \<open>paused\<close> is true, \<open>openBatch\<close> and
  \<open>closeBatch\<close> called by the owner, and \<open>submitData\<close> and
  \<open>requestBatchResultDecryption\<close> called by a provider, fail with \<open>Paused\<close> and
  change nothing (for other callers the authorisation error comes first, and nothing
  changes either). \<open>setCooldownSeconds\<close> and \<open>myCallback\<close> do not read the pause
  flag: their outcome, error and storage, is the one they have when not paused, with the
  flag still set.
\<close>

theorem paused_calls:
  assumes "paused s"
  shows "exec E t OpenBatch s = (Some (if msg_sender t \<noteq> owner s then NotOwner else Paused), s)
     \<and> exec E t CloseBatch s = (Some (if msg_sender t \<noteq> owner s then NotOwner else Paused), s)
     \<and> exec E t (SubmitData v) s
         = (Some (if \<not> providers s (msg_sender t) then NotProvider else Paused), s)
     \<and> exec E t RequestBatchResultDecryption s
         = (Some (if \<not> providers s (msg_sender t) then NotProvider else Paused), s)
     \<and> exec E t (SetCooldownSeconds n) s
         = (fst (exec E t (SetCooldownSeconds n) (s\<lparr>paused := False\<rparr>)),
            (snd (exec E t (SetCooldownSeconds n) (s\<lparr>paused := False\<rparr>)))\<lparr>paused := True\<rparr>)
     \<and> exec E t (MyCallback r c p) s
         = (fst (exec E t (MyCallback r c p) (s\<lparr>paused := False\<rparr>)),
            (snd (exec E t (MyCallback r c p) (s\<lparr>paused := False\<rparr>)))\<lparr>paused := True\<rparr>)"
  using assms paused_same [OF assms]
  by (simp add: exec_openBatch exec_closeBatch exec_submitData
      exec_requestBatchResultDecryption exec_setCooldownSeconds exec_myCallback Let_def
      split: option.splits)

text \<open>
  C7 as the code has it, in a paused state with a pending request: the gated calls
  fail, and the callback resolves the request.
\<close>

theorem paused_calls_witness:
  "paused st_pending_paused
   \<and> exec sim_env (mk_tx 1 260 0) OpenBatch st_pending_paused = (Some Paused, st_pending_paused)
   \<and> exec sim_env (mk_tx 1 260 0) (SubmitData 10) st_pending_paused
       = (Some Paused, st_pending_paused)
   \<and> exec sim_env (mk_tx 2 260 0) CloseBatch st_pending_paused
       = (Some NotOwner, st_pending_paused)
   \<and> fst (exec sim_env (mk_tx 9 300 0) (MyCallback 5 cleartext10 [1]) st_pending_paused) = None
   \<and> processed (decryptionContexts
        (snd (exec sim_env (mk_tx 9 300 0) (MyCallback 5 cleartext10 [1]) st_pending_paused)) 5)
   \<and> paused (snd (exec sim_env (mk_tx 9 300 0) (MyCallback 5 cleartext10 [1])
        st_pending_paused))"
proof -
  have p: "paused st_pending_paused"
    by (simp add: st_pending_paused_def)
  have o: "msg_sender (mk_tx 1 260 0) = owner st_pending_paused"
    "msg_sender (mk_tx 2 260 0) \<noteq> owner st_pending_paused"
    "providers st_pending_paused (msg_sender (mk_tx 1 260 0))"
    by (simp_all add: st_pending_paused_def st_defs mk_tx_def)
  have u: "exec sim_env (mk_tx 9 300 0) (MyCallback 5 cleartext10 [1])
      (st_pending_paused\<lparr>paused := False\<rparr>)
    = (None, st_resolved\<lparr>emitted := [E_BatchOpened 1, E_DataSubmitted 1 1 10,
         E_BatchClosed 1, E_DecryptionRequested 5 1, E_Paused 1,
         E_DecryptionCompleted 5 1 10]\<rparr>)"
    by (simp add: exec_myCallback decode_cleartext10 hashCiphertexts_def
        sim_env_def mk_tx_def st_defs st_pending_paused_def)
  note th = paused_calls [OF p, of sim_env]
  from th [of "mk_tx 1 260 0" 10] o
  have a: "exec sim_env (mk_tx 1 260 0) OpenBatch st_pending_paused
        = (Some Paused, st_pending_paused)
     \<and> exec sim_env (mk_tx 1 260 0) (SubmitData 10) st_pending_paused
        = (Some Paused, st_pending_paused)"
    by simp
  from th [of "mk_tx 2 260 0"] o
  have b: "exec sim_env (mk_tx 2 260 0) CloseBatch st_pending_paused
       = (Some NotOwner, st_pending_paused)"
    by simp
  from th [of "mk_tx 9 300 0" _ _ 5 cleartext10 "[1]"]
  have "exec sim_env (mk_tx 9 300 0) (MyCallback 5 cleartext10 [1]) st_pending_paused
     = (None, st_resolved\<lparr>emitted := [E_BatchOpened 1, E_DataSubmitted 1 1 10,
         E_BatchClosed 1, E_DecryptionRequested 5 1, E_Paused 1,
         E_DecryptionCompleted 5 1 10], paused := True\<rparr>)"
    unfolding u by simp
  then have c: "fst (exec sim_env (mk_tx 9 300 0) (MyCallback 5 cleartext10 [1])
        st_pending_paused) = None
     \<and> processed (decryptionContexts
        (snd (exec sim_env (mk_tx 9 300 0) (MyCallback 5 cleartext10 [1]) st_pending_paused)) 5)
     \<and> paused (snd (exec sim_env (mk_tx 9 300 0) (MyCallback 5 cleartext10 [1])
        st_pending_paused))"
    by (simp add: st_defs)
  from p a b c show ?thesis by blast
qed

text \<open>
  C7 as stated fails: while paused, the owner's \<open>setCooldownSeconds 5\<close> succeeds and
  changes the cooldown from 60 to 5.
\<close>

theorem paused_setCooldown_counterexample:
  "paused st_paused
   \<and> fst (exec sim_env (mk_tx 1 160 0) (SetCooldownSeconds 5) st_paused) = None
   \<and> cooldownSeconds st_paused = 60
   \<and> cooldownSeconds (snd (exec sim_env (mk_tx 1 160 0) (SetCooldownSeconds 5) st_paused)) = 5"
  by (simp add: exec_setCooldownSeconds mk_tx_def st_paused_def st_open_def)

text \<open>
  C8 (as the code has it). For every provider caller, \<open>requestBatchResultDecryption\<close>
  fails with \<open>Paused\<close> while paused; otherwise with \<open>Panic\<close> when the caller's last
  request time plus the cooldown overflows, and with \<open>CooldownActive\<close> within the
  cooldown; otherwise, the system not paused and the cooldown elapsed, with
  \<open>BatchNotClosed\<close> (the spec's BatchStillOpen) whenever a batch is open, and with
  \<open>InvalidArgument\<close> (the spec's NoData) whenever no batch is open and the current
  batch has no contribution; otherwise it succeeds. No failure changes the state.
\<close>

theorem request_outcome:
  assumes "providers s (msg_sender t)"
  shows "fst (exec E t RequestBatchResultDecryption s) =
     (if paused s then Some Paused
      else if 2 ^ 256 \<le> unat (lastDecryptionRequestTime s (msg_sender t))
                         + unat (cooldownSeconds s) then Some Panic
      else if unat (block_timestamp t)
                < unat (lastDecryptionRequestTime s (msg_sender t)) + unat (cooldownSeconds s)
           then Some CooldownActive
      else if batchOpen s then Some BatchNotClosed
      else if dataCount s (currentBatchId s) = 0 then Some InvalidArgument
      else None)
     \<and> (fst (exec E t RequestBatchResultDecryption s) \<noteq> None
        \<longrightarrow> snd (exec E t RequestBatchResultDecryption s) = s)"
  using assms
  by (simp add: exec_requestBatchResultDecryption cooldown_cases not_less)

text \<open>C8 as the code has it: one instance of each outcome.\<close>

theorem request_outcome_witness:
  "providers st_open (msg_sender (mk_tx 1 100 5))
   \<and> exec sim_env (mk_tx 1 100 5) RequestBatchResultDecryption st_open
       = (Some BatchNotClosed, st_open)
   \<and> exec sim_env (mk_tx 1 100 5) RequestBatchResultDecryption (constructor 1)
       = (Some InvalidArgument, constructor 1)
   \<and> exec sim_env (mk_tx 1 230 6) RequestBatchResultDecryption st_pending
       = (Some CooldownActive, st_pending)
   \<and> exec sim_env (mk_tx 1 300 6) RequestBatchResultDecryption st_long_cooldown
       = (Some Panic, st_long_cooldown)
   \<and> exec sim_env (mk_tx 1 300 6) RequestBatchResultDecryption st_pending_paused
       = (Some Paused, st_pending_paused)
   \<and> fst (exec sim_env (mk_tx 1 200 5) RequestBatchResultDecryption st_closed) = None"
proof -
  have pr: "providers st_open (msg_sender (mk_tx 1 100 5))"
    "providers (constructor 1) (msg_sender (mk_tx 1 100 5))"
    "providers st_pending (msg_sender (mk_tx 1 230 6))"
    "providers st_long_cooldown (msg_sender (mk_tx 1 300 6))"
    "providers st_pending_paused (msg_sender (mk_tx 1 300 6))"
    "providers st_closed (msg_sender (mk_tx 1 200 5))"
    by (simp_all add: st_defs st_long_cooldown_def st_pending_paused_def constructor_def
        zero_state_def mk_tx_def)
  from request_outcome [OF pr(1), of sim_env]
  have a: "exec sim_env (mk_tx 1 100 5) RequestBatchResultDecryption st_open
       = (Some BatchNotClosed, st_open)"
    by (simp add: prod_eq_iff mk_tx_def st_defs)
  from request_outcome [OF pr(2), of sim_env]
  have b: "exec sim_env (mk_tx 1 100 5) RequestBatchResultDecryption (constructor 1)
       = (Some InvalidArgument, constructor 1)"
    by (simp add: prod_eq_iff mk_tx_def constructor_def zero_state_def)
  from request_outcome [OF pr(3), of sim_env]
  have c: "exec sim_env (mk_tx 1 230 6) RequestBatchResultDecryption st_pending
       = (Some CooldownActive, st_pending)"
    by (simp add: prod_eq_iff mk_tx_def st_defs)
  from request_outcome [OF pr(4), of sim_env]
  have d: "exec sim_env (mk_tx 1 300 6) RequestBatchResultDecryption st_long_cooldown
       = (Some Panic, st_long_cooldown)"
    by (simp add: prod_eq_iff mk_tx_def st_defs st_long_cooldown_def)
  from request_outcome [OF pr(5), of sim_env]
  have e: "exec sim_env (mk_tx 1 300 6) RequestBatchResultDecryption st_pending_paused
       = (Some Paused, st_pending_paused)"
    by (simp add: prod_eq_iff mk_tx_def st_defs st_pending_paused_def)
  from request_outcome [OF pr(6), of sim_env]
  have f: "fst (exec sim_env (mk_tx 1 200 5) RequestBatchResultDecryption st_closed) = None"
    by (simp add: mk_tx_def st_defs)
  from pr(1) a b c d e f show ?thesis by blast
qed

text \<open>
  C8 as stated fails: with a batch open and the system paused, a provider's request fails
  with \<open>Paused\<close>, not with the batch-still-open error.
\<close>

theorem request_while_paused_counterexample:
  "providers st_paused (msg_sender (mk_tx 1 160 5))
   \<and> batchOpen st_paused
   \<and> fst (exec sim_env (mk_tx 1 160 5) RequestBatchResultDecryption st_paused) = Some Paused"
  by (simp add: exec_requestBatchResultDecryption mk_tx_def st_paused_def st_open_def)

text \<open>
  C9. In every reachable state, \<open>openBatch\<close> called by the owner while not paused fails
  with \<open>InvalidArgument\<close> (the spec's BatchAlreadyOpen) if a batch is open; otherwise
  (the counter being below the largest \<^verbatim>\<open>uint256\<close>) it succeeds, the current batch id
  is one more than before, the new batch has the encoding of zero as its accumulator, count
  0 and nobody marked as having submitted, and a batch is open.
\<close>

theorem openBatch_effect:
  assumes "reachable E s" and "msg_sender t = owner s" and "\<not> paused s"
  shows "(batchOpen s \<longrightarrow> exec E t OpenBatch s = (Some InvalidArgument, s))
     \<and> (\<not> batchOpen s \<and> unat (currentBatchId s) < 2 ^ 256 - 1 \<longrightarrow>
          fst (exec E t OpenBatch s) = None
          \<and> unat (currentBatchId (snd (exec E t OpenBatch s))) = unat (currentBatchId s) + 1
          \<and> encryptedDataSum (snd (exec E t OpenBatch s))
               (currentBatchId (snd (exec E t OpenBatch s))) = FHE_asEuint32 E 0
          \<and> dataCount (snd (exec E t OpenBatch s))
               (currentBatchId (snd (exec E t OpenBatch s))) = 0
          \<and> (\<forall>a. \<not> hasSubmitted (snd (exec E t OpenBatch s))
                     (currentBatchId (snd (exec E t OpenBatch s))) a)
          \<and> batchOpen (snd (exec E t OpenBatch s)))"
proof (intro conjI impI)
  assume "batchOpen s"
  with assms show "exec E t OpenBatch s = (Some InvalidArgument, s)"
    by (simp add: exec_openBatch)
next
  assume a: "\<not> batchOpen s \<and> unat (currentBatchId s) < 2 ^ 256 - 1"
  then have c: "checked_add (currentBatchId s) 1 = Some (currentBatchId s + 1)"
    by (simp add: checked_add_succ)
  from assms a c have e: "exec E t OpenBatch s =
      (None, s\<lparr>currentBatchId := currentBatchId s + 1, batchOpen := True,
               encryptedDataSum :=
                 (encryptedDataSum s)(currentBatchId s + 1 := FHE_asEuint32 E 0),
               dataCount := (dataCount s)(currentBatchId s + 1 := 0),
               emitted := emitted s @ [E_BatchOpened (currentBatchId s + 1)]\<rparr>)"
    by (simp add: exec_openBatch)
  from checked_add_one [OF c] have lt: "currentBatchId s < currentBatchId s + 1" by simp
  from reachable_batch_inv [OF assms(1)] lt
  have fresh: "\<forall>a. \<not> hasSubmitted s (currentBatchId s + 1) a"
    by (simp add: batch_inv_def)
  show "fst (exec E t OpenBatch s) = None" using e by simp
  show "unat (currentBatchId (snd (exec E t OpenBatch s))) = unat (currentBatchId s) + 1"
    using e checked_add_Some [OF c] by simp
  show "encryptedDataSum (snd (exec E t OpenBatch s))
          (currentBatchId (snd (exec E t OpenBatch s))) = FHE_asEuint32 E 0"
    using e by simp
  show "dataCount (snd (exec E t OpenBatch s))
          (currentBatchId (snd (exec E t OpenBatch s))) = 0"
    using e by simp
  show "\<forall>a. \<not> hasSubmitted (snd (exec E t OpenBatch s))
               (currentBatchId (snd (exec E t OpenBatch s))) a"
    using e fresh by simp
  show "batchOpen (snd (exec E t OpenBatch s))" using e by simp
qed

text \<open>C9 right after deployment, and once more with the batch already open.\<close>

theorem openBatch_effect_witness:
  "reachable sim_env (constructor 1)
   \<and> msg_sender (mk_tx 1 100 0) = owner (constructor 1)
   \<and> \<not> paused (constructor 1)
   \<and> fst (exec sim_env (mk_tx 1 100 0) OpenBatch (constructor 1)) = None
   \<and> currentBatchId (snd (exec sim_env (mk_tx 1 100 0) OpenBatch (constructor 1))) = 1
   \<and> exec sim_env (mk_tx 1 100 0) OpenBatch st_open = (Some InvalidArgument, st_open)"
proof -
  have r0: "reachable sim_env (constructor 1)"
    by (rule reachable.deployed)
  have o0: "msg_sender (mk_tx 1 100 0) = owner (constructor 1)"
    and p0: "\<not> paused (constructor 1)"
    by (simp_all add: constructor_def zero_state_def mk_tx_def)
  have "reachable sim_env (snd (exec sim_env (mk_tx 1 100 0) OpenBatch (constructor 1)))"
    using r0 by (rule reachable.called)
  then have r1: "reachable sim_env st_open"
    by (simp add: step_open)
  have o1: "msg_sender (mk_tx 1 100 0) = owner st_open" and p1: "\<not> paused st_open"
    by (simp_all add: st_open_def mk_tx_def)
  have "batchOpen st_open"
    by (simp add: st_open_def)
  with openBatch_effect [OF r1 o1 p1]
  have "exec sim_env (mk_tx 1 100 0) OpenBatch st_open = (Some InvalidArgument, st_open)"
    by simp
  moreover
  have "\<not> batchOpen (constructor 1) \<and> unat (currentBatchId (constructor 1)) < 2 ^ 256 - 1"
    by (simp add: constructor_def zero_state_def)
  with openBatch_effect [OF r0 o0 p0]
  have "fst (exec sim_env (mk_tx 1 100 0) OpenBatch (constructor 1)) = None"
    by simp
  ultimately show ?thesis
    using r0 o0 p0 by (simp add: step_open st_open_def)
qed

text \<open>
  C10. Immediately after construction the deploying account is the owner and already a
  member of the provider set, the cooldown is 60 seconds, the current batch id is 0, no
  batch is open and the system is not paused.
\<close>

theorem constructor_initial_state:
  "owner (constructor sender) = sender
   \<and> providers (constructor sender) sender
   \<and> cooldownSeconds (constructor sender) = 60
   \<and> currentBatchId (constructor sender) = 0
   \<and> \<not> batchOpen (constructor sender)
   \<and> \<not> paused (constructor sender)"
  by (simp add: constructor_def zero_state_def)

end
